theory Spec2Isabelle
  imports Main
begin

section \<open>JavaScript values that reach the terrain map\<close>

text \<open>
  Ids are JavaScript numbers. The private cursor \<open>#nextId\<close> starts at 1 and is only ever
  replaced by \<open>#nextId + 1\<close>, by \<open>key + 1\<close>, by \<open>undefined + 1\<close> or by 1, and a key of the
  map is either an argument that passed \<open>Number.isInteger\<close> or a copy of the cursor. So the
  only numbers that occur as keys or cursor are integers and NaN. Integers are modelled as
  unbounded \<open>int\<close>: a double is exact up to \<open>2 ^ 53\<close>, and ids of that size are outside
  this model.

  An argument of \<open>set\<close> or \<open>delete\<close> can be any value: null or undefined (\<open>Nullish\<close>), one
  of the numbers above, or anything else (\<open>Other\<close>: a fractional or infinite number, a
  string, an object), for which \<open>Number.isInteger\<close> is false and which is never a key.
\<close>

datatype jsnum = Integer int | NaN

datatype jsval = Nullish | Number jsnum | Other

text \<open>\<open>k + 1\<close> on a number.\<close>

fun plus_one :: "jsnum \<Rightarrow> jsnum" where
  "plus_one (Integer n) = Integer (n + 1)"
| "plus_one NaN = NaN"

text \<open>\<open>v + 1\<close> where \<open>v\<close> may be undefined (\<open>None\<close>): \<open>undefined + 1\<close> is NaN.\<close>

fun undefined_plus_one :: "jsnum option \<Rightarrow> jsnum" where
  "undefined_plus_one None = NaN"
| "undefined_plus_one (Some k) = plus_one k"

text \<open>\<open>a ?? b\<close>: \<open>b\<close> only when \<open>a\<close> is null or undefined (\<open>None\<close>).\<close>

fun nullish_coalesce :: "jsnum option \<Rightarrow> jsnum \<Rightarrow> jsnum" where
  "nullish_coalesce None b = b"
| "nullish_coalesce (Some a) b = a"

text \<open>\<open>a !== b\<close> with \<open>a\<close> possibly undefined: NaN is unequal to everything.\<close>

fun strict_neq :: "jsnum option \<Rightarrow> jsnum \<Rightarrow> bool" where
  "strict_neq (Some (Integer a)) (Integer b) = (a \<noteq> b)"
| "strict_neq _ _ = True"

text \<open>\<open>size === c - 1\<close> for the size of a map and a number \<open>c\<close>.\<close>

fun size_eq_minus_one :: "nat \<Rightarrow> jsnum \<Rightarrow> bool" where
  "size_eq_minus_one n (Integer c) = (int n = c - 1)"
| "size_eq_minus_one n NaN = False"

text \<open>\<open>a > b\<close>: false as soon as one side is NaN.\<close>

fun js_gt :: "jsnum \<Rightarrow> jsnum \<Rightarrow> bool" where
  "js_gt (Integer a) (Integer b) = (a > b)"
| "js_gt _ _ = False"

subsection \<open>\<open>Array.prototype.sort((a, b) => a - b)\<close>\<close>

text \<open>
  The comparator returns \<open>a - b\<close>; a NaN result counts as \<open>+0\<close> (the elements compare
  equal). The sort is stable. On integer keys this is the ascending order. With NaN among
  three or more keys the comparator is not a consistent order and ECMAScript leaves the
  result to the implementation; the model then gives what a stable insertion sort gives.
  The only arrays with NaN that a property below sorts have NaN first, followed by the
  integers \<open>1, 2, ...\<close> in ascending order. Such an array is already an ascending run
  under the comparator, and V8 returns it as it is, as the model does.
\<close>

fun comparator_positive :: "jsnum \<Rightarrow> jsnum \<Rightarrow> bool" where
  "comparator_positive (Integer a) (Integer b) = (a - b > 0)"
| "comparator_positive _ _ = False"

fun insert_js :: "jsnum \<Rightarrow> jsnum list \<Rightarrow> jsnum list" where
  "insert_js x [] = [x]"
| "insert_js x (y # ys) = (if comparator_positive x y then y # insert_js x ys else x # y # ys)"

definition sort_js :: "jsnum list \<Rightarrow> jsnum list" where
  "sort_js ks = foldr insert_js ks []"

subsection \<open>The built-in \<open>Map\<close>\<close>

text \<open>
  A \<open>Map\<close> keeps its entries in insertion order: \<open>set\<close> on a present key replaces the value
  in place, on a new key it appends. Keys are compared by SameValueZero, under which NaN
  equals NaN; on \<open>jsnum\<close> that is HOL equality.
\<close>

type_synonym 'a jsmap = "(jsnum \<times> 'a) list"

fun map_set :: "jsnum \<Rightarrow> 'a \<Rightarrow> 'a jsmap \<Rightarrow> 'a jsmap" where
  "map_set k v [] = [(k, v)]"
| "map_set k v (e # m) = (if fst e = k then (k, v) # m else e # map_set k v m)"

definition map_has :: "jsnum \<Rightarrow> 'a jsmap \<Rightarrow> bool" where
  "map_has k m = (k \<in> set (map fst m))"

definition map_get :: "jsnum \<Rightarrow> 'a jsmap \<Rightarrow> 'a option" where
  "map_get k m = map_of m k"

definition map_delete :: "jsnum \<Rightarrow> 'a jsmap \<Rightarrow> 'a jsmap" where
  "map_delete k m = filter (\<lambda>e. fst e \<noteq> k) m"

definition map_keys :: "'a jsmap \<Rightarrow> jsnum list" where
  "map_keys m = map fst m"

section \<open>\<open>TerrainMap\<close>\<close>

record 'a TerrainMap =
  entries :: "'a jsmap"
  nextId :: jsnum

definition MAX_TERRAINS :: int where
  "MAX_TERRAINS = 2 ^ 5 - 1"

text \<open>What the methods write to the console.\<close>

datatype console = Error_duplicate | Error_invalid jsval | Warn_exceeds jsnum

text \<open>\<open>new TerrainMap()\<close>: no entries, cursor 1.\<close>

definition new_TerrainMap :: "'a TerrainMap" where
  "new_TerrainMap = \<lparr>entries = [], nextId = Integer 1\<rparr>"

definition has :: "jsval \<Rightarrow> 'a TerrainMap \<Rightarrow> bool" where
  "has i t = (case i of Number k \<Rightarrow> map_has k (entries t) | _ \<Rightarrow> False)"

definition get :: "jsval \<Rightarrow> 'a TerrainMap \<Rightarrow> 'a option" where
  "get i t = (case i of Number k \<Rightarrow> map_get k (entries t) | _ \<Rightarrow> None)"

definition keys :: "'a TerrainMap \<Rightarrow> jsnum list" where
  "keys t = map_keys (entries t)"

text \<open>
  \<open>keys.find((k, idx) => keys[idx + 1] !== k + 1)\<close>: the first key whose successor in the
  array is not the key plus one; \<open>keys[idx + 1]\<close> is undefined at the last index. The
  result is undefined (\<open>None\<close>) for the empty array.
\<close>

fun find_lastConsecutiveKey :: "jsnum list \<Rightarrow> jsnum option" where
  "find_lastConsecutiveKey [] = None"
| "find_lastConsecutiveKey (k # ks) =
     (if strict_neq (case ks of [] \<Rightarrow> None | k' # _ \<Rightarrow> Some k') (plus_one k) then Some k
      else find_lastConsecutiveKey ks)"

text \<open>
  \<open>#findNextId\<close>. In \<open>lastConsecutiveKey + 1 ?? 1\<close> the sum binds tighter than \<open>??\<close>, and a
  sum is a number, never undefined.
\<close>

definition findNextId :: "'a TerrainMap \<Rightarrow> jsnum" where
  "findNextId t =
     (if size_eq_minus_one (length (entries t)) (nextId t) then plus_one (nextId t)
      else let ks = sort_js (keys t);
               lastConsecutiveKey = find_lastConsecutiveKey ks
           in nullish_coalesce (Some (undefined_plus_one lastConsecutiveKey)) (Integer 1))"

text \<open>\<open>id ??= this.#nextId\<close>: a null or undefined id becomes the cursor.\<close>

definition nullish_default :: "jsval \<Rightarrow> 'a TerrainMap \<Rightarrow> jsval" where
  "nullish_default i t = (case i of Nullish \<Rightarrow> Number (nextId t) | _ \<Rightarrow> i)"

text \<open>
  \<open>set(id, terrain, override = false)\<close>. The result is the returned value (\<open>None\<close> for
  undefined), the console output, and the map afterwards. \<open>id < 1\<close> is only evaluated on
  a value that passed \<open>Number.isInteger\<close>.
\<close>

definition set_tm ::
  "jsval \<Rightarrow> 'a \<Rightarrow> bool \<Rightarrow> 'a TerrainMap \<Rightarrow> (jsnum option \<times> console list) \<times> 'a TerrainMap" where
  "set_tm i terrain override t =
     (let i = nullish_default i t in
      if \<not> override \<and> has i t then ((None, [Error_duplicate]), t)
      else case i of
        Number (Integer n) \<Rightarrow>
          if n < 1 then ((None, [Error_invalid i]), t)
          else
            let warn = (if n > MAX_TERRAINS then [Warn_exceeds (Integer n)] else []);
                t1 = t\<lparr>entries := map_set (Integer n) terrain (entries t)\<rparr>;
                t2 = t1\<lparr>nextId := findNextId t1\<rparr>
            in ((Some (Integer n), warn), t2)
      | _ \<Rightarrow> ((None, [Error_invalid i]), t))"

text \<open>\<open>add(terrain)\<close>: the returned id, the console output, and the map afterwards.\<close>

definition add :: "'a \<Rightarrow> 'a TerrainMap \<Rightarrow> (jsnum \<times> console list) \<times> 'a TerrainMap" where
  "add terrain t =
     (let i = nextId t;
          warn = (if js_gt i (Integer MAX_TERRAINS) then [Warn_exceeds i] else []);
          t1 = t\<lparr>entries := map_set i terrain (entries t)\<rparr>;
          t2 = t1\<lparr>nextId := findNextId t1\<rparr>
      in ((i, warn), t2))"

definition clear :: "'a TerrainMap \<Rightarrow> 'a TerrainMap" where
  "clear t = t\<lparr>entries := [], nextId := Integer 1\<rparr>"

text \<open>\<open>delete(id)\<close>: the returned boolean and the map afterwards.\<close>

definition delete :: "jsval \<Rightarrow> 'a TerrainMap \<Rightarrow> bool \<times> 'a TerrainMap" where
  "delete i t =
     (case i of
        Number k \<Rightarrow>
          if \<not> map_has k (entries t) then (False, t)
          else
            let t1 = t\<lparr>entries := map_delete k (entries t)\<rparr>
            in (True, if js_gt (nextId t) k then t1\<lparr>nextId := findNextId t1\<rparr> else t1)
      | _ \<Rightarrow> (False, t))"

section \<open>JavaScript numbers as doubles\<close>

text \<open>
  Elevations are JavaScript numbers: IEEE 754 binary64 values. A finite double is
  \<open>m * 2 ^ e\<close> with \<open>\<bar>m\<bar> < 2 ^ 53\<close> and \<open>- 1074 \<le> e \<le> 971\<close>, so it is an integer multiple of
  \<open>2 ^ - 1074\<close>, the smallest subnormal. \<open>Finite n\<close> stands for the number
  \<open>n * 2 ^ - 1074\<close>; \<open>Finite 0\<close> is \<open>+0\<close> and \<open>NegZero\<close> is \<open>-0\<close>.
\<close>

datatype double = Finite int | NegZero | PosInf | NegInf | NotANumber

text \<open>
  Rounding to 53 significant bits, as \<open>+\<close> does with the exact sum (round to nearest, ties
  to even). \<open>excess_bits n\<close> is the number of low bits that a non-negative \<open>n\<close> has beyond
  53; \<open>round_half_even n k\<close> is \<open>n / 2 ^ k\<close> rounded to the nearest integer, a tie going to
  the even one. A rounded magnitude of \<open>2 ^ 1024\<close> or more, that is \<open>2 ^ 2098\<close> in units of
  \<open>2 ^ - 1074\<close>, overflows to an infinity.
\<close>

function excess_bits :: "int \<Rightarrow> nat" where
  "excess_bits n = (if n < 2 ^ 53 then 0 else Suc (excess_bits (n div 2)))"
  by pat_completeness auto
termination
proof (relation "measure nat")
  show "wf (measure nat)" by simp
next
  fix n :: int
  assume "\<not> n < 2 ^ 53"
  then have "0 < n" by (cases "n \<le> 0") simp_all
  then show "(n div 2, n) \<in> measure nat" by simp
qed

declare excess_bits.simps [simp del]

definition round_half_even :: "int \<Rightarrow> nat \<Rightarrow> int" where
  "round_half_even n k =
     (let q = n div 2 ^ k; r = n mod 2 ^ k
      in if 2 * r < 2 ^ k then q
         else if 2 * r > 2 ^ k then q + 1
         else if even q then q else q + 1)"

definition round_magnitude :: "int \<Rightarrow> int" where
  "round_magnitude n = (let k = excess_bits n in round_half_even n k * 2 ^ k)"

definition round64 :: "int \<Rightarrow> double" where
  "round64 s =
     (let m = round_magnitude \<bar>s\<bar>
      in if m \<ge> 2 ^ 2098 then (if s < 0 then NegInf else PosInf)
         else Finite (if s < 0 then - m else m))"

text \<open>
  \<open>a + b\<close> on numbers. NaN is contagious, opposite infinities give NaN, an infinity absorbs
  everything else, \<open>-0 + -0\<close> is \<open>-0\<close>, and otherwise the result is the exact sum rounded;
  an exact sum of zero is \<open>+0\<close>. For a double \<open>a\<close>, \<open>round64 a\<close> is \<open>Finite a\<close>.
\<close>

fun js_plus :: "double \<Rightarrow> double \<Rightarrow> double" where
  "js_plus NotANumber _ = NotANumber"
| "js_plus _ NotANumber = NotANumber"
| "js_plus PosInf NegInf = NotANumber"
| "js_plus NegInf PosInf = NotANumber"
| "js_plus PosInf _ = PosInf"
| "js_plus _ PosInf = PosInf"
| "js_plus NegInf _ = NegInf"
| "js_plus _ NegInf = NegInf"
| "js_plus NegZero NegZero = NegZero"
| "js_plus NegZero (Finite b) = round64 b"
| "js_plus (Finite a) NegZero = round64 a"
| "js_plus (Finite a) (Finite b) = round64 (a + b)"



section \<open>\<open>Terrain\<close>\<close>




section \<open>Notions of the specification\<close>

text \<open>
  The condition under which the specification rejects an id as invalid: it is not an
  integer, or it is below 1.
\<close>

definition invalid_id :: "jsval \<Rightarrow> bool" where
  "invalid_id i = (case i of Number (Integer n) \<Rightarrow> n < 1 | _ \<Rightarrow> True)"

text \<open>A sequence of \<open>add\<close> calls, one per entry, collecting the returned ids.\<close>

fun adds :: "'a list \<Rightarrow> 'a TerrainMap \<Rightarrow> jsnum list \<times> 'a TerrainMap" where
  "adds [] t = ([], t)"
| "adds (x # xs) t =
     (let r = add x t; rs = adds xs (snd r) in (fst (fst r) # fst rs, snd rs))"

text \<open>
  Modelled from the spec: the loader that rebuilds a container from its stored pairs is
  not among the sources. The specification describes it as replaying
  \<open>assign(id, entry, override = true)\<close> for each stored pair in ascending id order into a
  freshly created container. \<open>ascending_pairs\<close> orders the pairs by id, \<open>replay\<close> performs
  the calls, \<open>reconstruct\<close> is the round trip.
\<close>

fun insert_pair :: "jsnum \<times> 'a \<Rightarrow> 'a jsmap \<Rightarrow> 'a jsmap" where
  "insert_pair p [] = [p]"
| "insert_pair p (q # qs) =
     (if comparator_positive (fst p) (fst q) then q # insert_pair p qs else p # q # qs)"

definition ascending_pairs :: "'a jsmap \<Rightarrow> 'a jsmap" where
  "ascending_pairs m = foldr insert_pair m []"

fun replay :: "'a jsmap \<Rightarrow> 'a TerrainMap \<Rightarrow> 'a TerrainMap" where
  "replay [] t = t"
| "replay (p # ps) t = replay ps (snd (set_tm (Number (fst p)) (snd p) True t))"

definition reconstruct :: "'a TerrainMap \<Rightarrow> 'a TerrainMap" where
  "reconstruct t = replay (ascending_pairs (entries t)) new_TerrainMap"

section \<open>Facts about the built-in map\<close>

lemma map_get_map_set_same: "map_get k (map_set k v m) = Some v"
  by (induction m) (simp_all add: map_get_def)

lemma map_get_map_set_other: "k' \<noteq> k \<Longrightarrow> map_get k' (map_set k v m) = map_get k' m"
  by (induction m) (auto simp add: map_get_def)

lemma map_has_map_set: "map_has k' (map_set k v m) = (k' = k \<or> map_has k' m)"
  by (induction m) (auto simp add: map_has_def)

lemma map_get_map_delete: "map_get k' (map_delete k m) = (if k' = k then None else map_get k' m)"
  by (induction m) (auto simp add: map_get_def map_delete_def)

lemma map_fst_map_set_new:
  "k \<notin> set (map fst m) \<Longrightarrow> map fst (map_set k v m) = map fst m @ [k]"
  by (induction m) auto

lemma map_fst_map_delete: "map fst (map_delete k m) = filter (\<lambda>k'. k' \<noteq> k) (map fst m)"
  by (induction m) (simp_all add: map_delete_def)

section \<open>Sorting and scanning integer keys\<close>

text \<open>On integer keys the comparator sort is the ascending sort of the integers.\<close>

lemma insert_js_Integer: "insert_js (Integer x) (map Integer ys) = map Integer (insort x ys)"
  by (induction ys) auto

lemma sort_js_Integer: "sort_js (map Integer xs) = map Integer (sort xs)"
  by (induction xs) (simp_all add: sort_js_def insert_js_Integer)

lemma Integer_list: "set ks \<subseteq> range Integer \<Longrightarrow> \<exists>xs. ks = map Integer xs"
proof (induction ks)
  case Nil
  then show ?case by simp
next
  case (Cons k ks)
  then obtain x xs where "k = Integer x" and "ks = map Integer xs" by auto
  then have "k # ks = map Integer (x # xs)" by simp
  then show ?case by (rule exI)
qed

lemma sort_is_1_3_4:
  assumes "distinct xs" and "set xs = {1, 3, 4 :: int}"
  shows "sort xs = [1, 3, 4]"
proof -
  have "sorted (sort xs)" and "distinct (sort xs)" and "set (sort xs) = set [1, 3, 4 :: int]"
    using assms by simp_all
  moreover have "sorted [1, 3, 4 :: int]" and "distinct [1, 3, 4 :: int]" by simp_all
  ultimately show ?thesis by (intro sorted_distinct_set_unique)
qed

text \<open>The scan passes over a key that is followed by its successor.\<close>

lemma find_lastConsecutiveKey_step:
  "find_lastConsecutiveKey (Integer a # Integer (a + 1) # ks) =
     find_lastConsecutiveKey (Integer (a + 1) # ks)"
  by simp

lemma find_lastConsecutiveKey_upto:
  "a \<le> b \<Longrightarrow> find_lastConsecutiveKey (map Integer [a..b]) = Some (Integer b)"
proof (induction "nat (b - a)" arbitrary: a)
  case 0
  then have "a = b" by simp
  then show ?case by simp
next
  case (Suc d)
  then have lt: "a < b" and d: "d = nat (b - (a + 1))" and le: "a + 1 \<le> b" by simp_all
  obtain rest where tl: "[a + 1..b] = (a + 1) # rest"
    using upto_rec1 [OF le] by blast
  have un: "[a..b] = a # [a + 1..b]"
    using lt by (simp add: upto_rec1 [of a b])
  have "find_lastConsecutiveKey (map Integer [a..b]) = find_lastConsecutiveKey (map Integer [a + 1..b])"
    unfolding un tl list.map by (rule find_lastConsecutiveKey_step)
  with Suc.hyps(1) [OF d le] show ?case
    by simp
qed

section \<open>Consecutive adds\<close>

text \<open>
  While the keys are \<open>1, ..., n\<close> in this order and the cursor is \<open>n + 1\<close>, an \<open>add\<close> returns
  \<open>n + 1\<close> and leaves the keys \<open>1, ..., n + 1\<close> with the cursor at \<open>n + 2\<close>.
\<close>

lemma add_consecutive:
  assumes ks: "keys t = map Integer [1..n]" and c: "nextId t = Integer (n + 1)" and n: "0 \<le> n"
  shows "fst (fst (add x t)) = Integer (n + 1)
    \<and> keys (snd (add x t)) = map Integer [1..n + 1]
    \<and> nextId (snd (add x t)) = Integer (n + 2)"
proof -
  have fresh: "Integer (n + 1) \<notin> set (map fst (entries t))"
    using ks by (auto simp add: keys_def map_keys_def)
  have ks': "map fst (map_set (Integer (n + 1)) x (entries t)) = map Integer [1..n + 1]"
    using map_fst_map_set_new [OF fresh] ks n
    by (simp add: keys_def map_keys_def upto_rec2 [of 1 "n + 1"])
  have len: "length (map_set (Integer (n + 1)) x (entries t)) = nat (n + 1)"
    using arg_cong [OF ks', of length] by simp
  have srt: "sort_js (map Integer [1..n + 1]) = map Integer [1..n + 1]"
    by (simp add: sort_js_Integer sort_key_id_if_sorted)
  have fnd: "find_lastConsecutiveKey (map Integer [1..n + 1]) = Some (Integer (n + 1))"
    using n by (intro find_lastConsecutiveKey_upto) simp
  show ?thesis
    using n by (simp add: add_def Let_def c findNextId_def keys_def map_keys_def ks' len srt fnd)
qed

lemma adds_consecutive:
  "keys t = map Integer [1..n] \<Longrightarrow> nextId t = Integer (n + 1) \<Longrightarrow> 0 \<le> n \<Longrightarrow>
     fst (adds xs t) = map Integer [n + 1..n + int (length xs)]"
proof (induction xs arbitrary: t n)
  case Nil
  then show ?case by simp
next
  case (Cons x xs)
  note step = add_consecutive [OF Cons.prems, of x]
  have "fst (adds xs (snd (add x t))) = map Integer [(n + 1) + 1..(n + 1) + int (length xs)]"
    using step Cons.prems(3) by (intro Cons.IH) simp_all
  then show ?case
    using step by (simp add: Let_def upto_rec1 [of "n + 1" "n + (1 + int (length xs))"] add.assoc)
qed

lemma four_adds:
  "snd (adds [a, b, c, d] new_TerrainMap) =
     \<lparr>entries = [(Integer 1, a), (Integer 2, b), (Integer 3, c), (Integer 4, d)],
      nextId = Integer 5\<rparr>"
  by (simp add: new_TerrainMap_def add_def Let_def findNextId_def keys_def map_keys_def sort_js_def)

section \<open>Deleting key 2 from keys 1 to 4\<close>

lemma delete_2_of_1_to_4:
  assumes d: "distinct (keys t)" and s: "set (keys t) = Integer ` {1, 2, 3, 4}"
    and c: "nextId t = Integer c" and c1: "1 \<le> c" and free: "\<not> has (Number (Integer c)) t"
  shows "fst (delete (Number (Integer 2)) t)
     \<and> nextId (snd (delete (Number (Integer 2)) t)) = Integer 2
     \<and> fst (fst (add x (snd (delete (Number (Integer 2)) t)))) = Integer 2"
proof -
  obtain xs where xs: "map fst (entries t) = map Integer xs"
    using Integer_list [of "keys t"] s by (auto simp add: keys_def map_keys_def)
  have inj: "inj Integer" by (simp add: inj_def)
  have dx: "distinct xs"
    using d xs by (simp add: keys_def map_keys_def distinct_map)
  have "Integer ` set xs = Integer ` {1, 2, 3, 4}"
    using s xs by (simp add: keys_def map_keys_def)
  then have sx: "set xs = {1, 2, 3, 4}"
    using inj by (simp only: inj_image_eq_iff)
  have c5: "4 < c"
  proof (rule ccontr)
    assume "\<not> 4 < c"
    with c1 have "c \<in> {1, 2, 3, 4}" by auto
    then have "Integer c \<in> set (keys t)" using s by blast
    with free show False by (simp add: has_def map_has_def keys_def map_keys_def)
  qed
  have present: "map_has (Integer 2) (entries t)"
    using s by (simp add: map_has_def keys_def map_keys_def)
  let ?m = "map_delete (Integer 2) (entries t)"
  let ?ys = "filter (\<lambda>x. x \<noteq> 2) xs"
  have ks': "map fst ?m = map Integer ?ys"
    by (simp add: map_fst_map_delete xs filter_map comp_def)
  have dy: "distinct ?ys" using dx by simp
  have sy: "set ?ys = {1, 3, 4}" using sx by auto
  have "card (set ?ys) = length ?ys" using dy by (rule distinct_card)
  then have "length ?ys = 3" by (simp only: sy) simp
  then have len: "length ?m = 3"
    using arg_cong [OF ks', of length] by simp
  have srt: "sort_js (map Integer ?ys) = [Integer 1, Integer 3, Integer 4]"
    by (simp add: sort_js_Integer sort_is_1_3_4 [OF dy sy])
  have next2: "findNextId (t\<lparr>entries := ?m\<rparr>) = Integer 2"
    using c5 by (simp add: findNextId_def c len keys_def map_keys_def ks' srt)
  have del: "delete (Number (Integer 2)) t = (True, t\<lparr>entries := ?m, nextId := Integer 2\<rparr>)"
    using c5 present by (simp add: delete_def Let_def c next2)
  show ?thesis
    by (simp add: del add_def Let_def)
qed

section \<open>What \<open>delete\<close> returns\<close>

lemma delete_absent: "\<not> has i t \<Longrightarrow> delete i t = (False, t)"
  by (simp add: delete_def has_def split: jsval.splits)

lemma delete_present:
  "has i t \<Longrightarrow>
     fst (delete i t) \<and> (\<forall>j. get j (snd (delete i t)) = (if j = i then None else get j t))"
  by (auto simp add: delete_def has_def get_def Let_def map_get_map_delete split: jsval.splits)

section \<open>Rounding is monotone\<close>

lemma excess_bits_upper: "n < 2 ^ 53 * 2 ^ excess_bits n"
proof (induction n rule: excess_bits.induct)
  case (1 n)
  show ?case
  proof (cases "n < 2 ^ 53")
    case True
    then show ?thesis by (simp add: excess_bits.simps [of n])
  next
    case False
    with 1 have "n div 2 < 2 ^ 53 * 2 ^ excess_bits (n div 2)" by simp
    then have "n < 2 * (2 ^ 53 * 2 ^ excess_bits (n div 2))" by linarith
    with False show ?thesis by (simp add: excess_bits.simps [of n])
  qed
qed

lemma excess_bits_lower: "0 < excess_bits n \<Longrightarrow> 2 ^ 52 * 2 ^ excess_bits n \<le> n"
proof (induction n rule: excess_bits.induct)
  case (1 n)
  from "1.prems" have big: "\<not> n < 2 ^ 53"
    by (auto simp add: excess_bits.simps [of n])
  then have k: "excess_bits n = Suc (excess_bits (n div 2))"
    by (simp add: excess_bits.simps [of n])
  show ?case
  proof (cases "excess_bits (n div 2) = 0")
    case True
    with k big show ?thesis by simp
  next
    case False
    with 1 big have "2 ^ 52 * 2 ^ excess_bits (n div 2) \<le> n div 2" by simp
    then have "2 * (2 ^ 52 * 2 ^ excess_bits (n div 2)) \<le> n" by linarith
    with k show ?thesis by simp
  qed
qed
















section \<open>Sums that are exact, and sums that fall halfway\<close>

lemma excess_bits_eq:
  assumes lo: "2 ^ 52 * 2 ^ k \<le> n" and hi: "n < 2 ^ 53 * 2 ^ k" and k: "0 < k"
  shows "excess_bits n = k"
proof (rule ccontr)
  assume ne: "excess_bits n \<noteq> k"
  let ?j = "excess_bits n"
  have up: "n < 2 ^ 53 * 2 ^ ?j" by (rule excess_bits_upper)
  show False
  proof (cases "?j < k")
    case True
    then have "(2::int) ^ 52 * 2 ^ Suc ?j \<le> 2 ^ 52 * 2 ^ k"
      by (intro mult_left_mono power_increasing) simp_all
    with up lo show False by simp
  next
    case False
    with ne have gt: "Suc k \<le> ?j" by simp
    then have "0 < ?j" by simp
    then have "2 ^ 52 * 2 ^ ?j \<le> n" by (rule excess_bits_lower)
    moreover have "(2::int) ^ 52 * 2 ^ Suc k \<le> 2 ^ 52 * 2 ^ ?j"
      using gt by (intro mult_left_mono power_increasing) simp_all
    ultimately show False using hi by simp
  qed
qed

lemma excess_bits_small: "n < 2 ^ 53 \<Longrightarrow> excess_bits n = 0"
  by (simp add: excess_bits.simps [of n])





lemma round64_halfway:
  assumes lo: "2 ^ 52 \<le> q" and hi: "q < 2 ^ 53"
    and small: "(q + 1) * 2 ^ Suc j < 2 ^ 2098"
  shows "round64 ((2 * q + 1) * 2 ^ j)
     = Finite ((if even q then q else q + 1) * 2 ^ Suc j)"
proof -
  let ?n = "(2 * q + 1) * 2 ^ j"
  have n: "?n = 2 ^ Suc j * q + 2 ^ j" by (simp add: algebra_simps)
  have q0: "0 \<le> q" using lo by (rule order_trans [rotated]) simp
  have "(2::int) ^ 52 * 2 ^ Suc j \<le> q * 2 ^ Suc j"
    using lo by (intro mult_right_mono) simp_all
  also have "q * 2 ^ Suc j \<le> ?n" by (simp add: algebra_simps)
  finally have low: "2 ^ 52 * 2 ^ Suc j \<le> ?n" .
  have "2 * q + 1 < 2 * 2 ^ 53" using hi by simp
  then have "?n < 2 * 2 ^ 53 * 2 ^ j"
    by (intro mult_strict_right_mono) simp_all
  then have high: "?n < 2 ^ 53 * 2 ^ Suc j" by simp
  have k: "excess_bits ?n = Suc j"
    using low high by (rule excess_bits_eq) simp
  have d: "?n div 2 ^ Suc j = q"
    using n by (rule int_div_pos_eq) simp_all
  have m: "?n mod 2 ^ Suc j = 2 ^ j"
    using n by (rule int_mod_pos_eq) simp_all
  have r: "round_half_even ?n (Suc j) = (if even q then q else q + 1)"
    unfolding round_half_even_def Let_def d m by simp
  have nonneg: "0 \<le> ?n" using q0 by simp
  have "(if even q then q else q + 1) * 2 ^ Suc j \<le> (q + 1) * 2 ^ Suc j"
    by (intro mult_right_mono) simp_all
  with small have "(if even q then q else q + 1) * 2 ^ Suc j < 2 ^ 2098" by linarith
  with nonneg show ?thesis
    unfolding round64_def round_magnitude_def Let_def abs_of_nonneg [OF nonneg] k r
    by (simp del: power_Suc)
qed



lemma tenth_plus_fifth:
  "js_plus (Finite (3602879701896397 * 2 ^ 1019)) (Finite (3602879701896397 * 2 ^ 1020))
     = Finite (5404319552844596 * 2 ^ 1020)"
proof -
  have a: "(3602879701896397::int) * 2 ^ 1019 + 3602879701896397 * 2 ^ 1020
      = (2 * 5404319552844595 + 1) * 2 ^ 1019" by simp
  have b: "(if even (5404319552844595::int) then 5404319552844595 else 5404319552844595 + 1)
      * 2 ^ Suc 1019 = (5404319552844596::int) * 2 ^ 1020" by simp
  have "round64 ((2 * 5404319552844595 + 1) * 2 ^ 1019)
      = Finite ((if even (5404319552844595::int) then 5404319552844595 else 5404319552844595 + 1)
          * 2 ^ Suc 1019)"
    by (rule round64_halfway) simp_all
  then show ?thesis unfolding js_plus.simps a b .
qed


section \<open>The claims\<close>

text \<open>
  C1. The claim: after every successful mutation the cursor \<open>nextId\<close> equals the smallest
  positive integer that is not a key. The code does not keep this. On a new map,
  \<open>set(2, x)\<close> leaves the cursor at 3 while 1, the smallest positive integer that is not
  a key, is free; \<open>add(x)\<close> followed by \<open>delete(1)\<close> leaves the cursor at NaN; and on the
  keys 1, 2 with cursor 3 the overriding \<open>set(1, z, true)\<close> moves the cursor to 4 while 3 is
  free.
\<close>

theorem findNextId_misses_smallest_free_id:
  "nextId (snd (set_tm (Number (Integer 2)) ''x'' False new_TerrainMap)) = Integer 3
   \<and> (LEAST n. 1 \<le> n
          \<and> \<not> has (Number (Integer n)) (snd (set_tm (Number (Integer 2)) ''x'' False new_TerrainMap))) = 1
   \<and> snd (delete (Number (Integer 1)) (snd (add ''x'' new_TerrainMap)))
       = \<lparr>entries = [], nextId = NaN\<rparr>
   \<and> snd (set_tm (Number (Integer 1)) ''z'' True (snd (adds [''x'', ''y''] new_TerrainMap)))
       = \<lparr>entries = [(Integer 1, ''z''), (Integer 2, ''y'')], nextId = Integer 4\<rparr>"
proof -
  let ?s = "snd (set_tm (Number (Integer 2)) ''x'' False new_TerrainMap)"
  have s: "?s = \<lparr>entries = [(Integer 2, ''x'')], nextId = Integer 3\<rparr>"
    by (simp add: set_tm_def nullish_default_def has_def map_has_def new_TerrainMap_def Let_def
        MAX_TERRAINS_def findNextId_def keys_def map_keys_def sort_js_def)
  have least: "(LEAST n. 1 \<le> n \<and> \<not> has (Number (Integer n)) ?s) = 1"
    unfolding s by (rule Least_equality) (simp_all add: has_def map_has_def)
  have nan: "snd (delete (Number (Integer 1)) (snd (add ''x'' new_TerrainMap)))
       = \<lparr>entries = [], nextId = NaN\<rparr>"
    by (simp add: delete_def add_def new_TerrainMap_def Let_def map_has_def map_delete_def
        findNextId_def keys_def map_keys_def sort_js_def)
  have ov: "snd (set_tm (Number (Integer 1)) ''z'' True (snd (adds [''x'', ''y''] new_TerrainMap)))
       = \<lparr>entries = [(Integer 1, ''z''), (Integer 2, ''y'')], nextId = Integer 4\<rparr>"
    by (simp add: set_tm_def nullish_default_def add_def new_TerrainMap_def Let_def
        MAX_TERRAINS_def findNextId_def keys_def map_keys_def sort_js_def)
  from s least nan ov show ?thesis by simp
qed

text \<open>
  C2. The claim: \<open>add\<close> stores at the cursor, as \<open>set(null, entry, false)\<close> would, and the
  cursor is never a key already. On a new map, after \<open>set(2, x)\<close> and \<open>set(4, y)\<close> the
  cursor is 4, which is a key. \<open>add(z)\<close> then returns 4 and replaces \<open>y\<close>, while
  \<open>set(null, z, false)\<close> is rejected as a duplicate and changes nothing.
\<close>

theorem add_collides_with_key_4:
  "snd (set_tm (Number (Integer 4)) ''y'' False (snd (set_tm (Number (Integer 2)) ''x'' False new_TerrainMap)))
     = \<lparr>entries = [(Integer 2, ''x''), (Integer 4, ''y'')], nextId = Integer 4\<rparr>
   \<and> add ''z'' \<lparr>entries = [(Integer 2, ''x''), (Integer 4, ''y'')], nextId = Integer 4\<rparr>
     = ((Integer 4, []), \<lparr>entries = [(Integer 2, ''x''), (Integer 4, ''z'')], nextId = Integer 3\<rparr>)
   \<and> set_tm Nullish ''z'' False \<lparr>entries = [(Integer 2, ''x''), (Integer 4, ''y'')], nextId = Integer 4\<rparr>
     = ((None, [Error_duplicate]),
        \<lparr>entries = [(Integer 2, ''x''), (Integer 4, ''y'')], nextId = Integer 4\<rparr>)"
  by (simp add: set_tm_def nullish_default_def has_def map_has_def add_def new_TerrainMap_def
      Let_def MAX_TERRAINS_def findNextId_def keys_def map_keys_def sort_js_def)

text \<open>
  C3. The claim: every key is a positive integer, under every sequence of operations. On a
  new map, \<open>add(x)\<close>, \<open>delete(1)\<close>, \<open>add(y)\<close> stores \<open>y\<close> under the key NaN: deleting the last
  entry makes the cursor \<open>undefined + 1\<close>, and \<open>add\<close> uses the cursor as the key.
\<close>

theorem add_after_emptying_stores_at_NaN:
  "add ''y'' (snd (delete (Number (Integer 1)) (snd (add ''x'' new_TerrainMap))))
     = ((NaN, []), \<lparr>entries = [(NaN, ''y'')], nextId = NaN\<rparr>)"
  by (simp add: delete_def add_def new_TerrainMap_def Let_def map_has_def map_delete_def
      findNextId_def keys_def map_keys_def sort_js_def)

text \<open>
  C4. The claim: replaying the pairs of a container in ascending id order into a new
  container gives the same keys, entries and cursor. The container reached from a new map
  by \<open>add(x)\<close>, \<open>add(y)\<close>, \<open>set(1, z, true)\<close> has the keys 1, 2 and the cursor 4; its
  reconstruction has the same entries and the cursor 3.
\<close>

theorem reconstruct_changes_cursor:
  "snd (set_tm (Number (Integer 1)) ''z'' True (snd (adds [''x'', ''y''] new_TerrainMap)))
     = \<lparr>entries = [(Integer 1, ''z''), (Integer 2, ''y'')], nextId = Integer 4\<rparr>
   \<and> reconstruct \<lparr>entries = [(Integer 1, ''z''), (Integer 2, ''y'')], nextId = Integer 4\<rparr>
     = \<lparr>entries = [(Integer 1, ''z''), (Integer 2, ''y'')], nextId = Integer 3\<rparr>"
  by (simp add: reconstruct_def ascending_pairs_def set_tm_def nullish_default_def add_def
      new_TerrainMap_def Let_def MAX_TERRAINS_def findNextId_def keys_def map_keys_def sort_js_def)

text \<open>
  C5. Any number of \<open>add\<close> calls on a new map, with nothing in between, return the ids
  1, 2, ..., n in this order.
\<close>

theorem adds_on_new_return_1_to_n:
  "fst (adds xs new_TerrainMap) = map Integer [1..int (length xs)]"
  using adds_consecutive [of new_TerrainMap 0 xs]
  by (simp add: new_TerrainMap_def keys_def map_keys_def)

text \<open>
  C6. A rejected \<open>set\<close> changes nothing. When the id (the cursor, for a null id) is
  already a key and \<open>override\<close> is false, or when it is not an integer or is below 1,
  \<open>set\<close> returns undefined, writes one error to the console and leaves the entries and the
  cursor as they were. In particular, once \<open>set(5, x)\<close> has stored \<open>x\<close>, \<open>set(5, y)\<close>
  without override is rejected as a duplicate and key 5 still holds \<open>x\<close>.
\<close>

theorem set_rejected_leaves_map_unchanged:
  "((\<not> override \<and> has (nullish_default i t) t) \<or> invalid_id (nullish_default i t) \<longrightarrow>
      fst (fst (set_tm i terrain override t)) = None
      \<and> snd (fst (set_tm i terrain override t)) \<in>
          {[Error_duplicate], [Error_invalid (nullish_default i t)]}
      \<and> snd (set_tm i terrain override t) = t)
   \<and> (ov \<or> \<not> has (Number (Integer 5)) u \<longrightarrow>
      fst (fst (set_tm (Number (Integer 5)) x ov u)) = Some (Integer 5)
      \<and> get (Number (Integer 5)) (snd (set_tm (Number (Integer 5)) x ov u)) = Some x
      \<and> set_tm (Number (Integer 5)) y False (snd (set_tm (Number (Integer 5)) x ov u))
          = ((None, [Error_duplicate]), snd (set_tm (Number (Integer 5)) x ov u))
      \<and> get (Number (Integer 5))
           (snd (set_tm (Number (Integer 5)) y False (snd (set_tm (Number (Integer 5)) x ov u))))
          = Some x)"
proof -
  have rejected: "(\<not> override \<and> has (nullish_default i t) t) \<or> invalid_id (nullish_default i t) \<longrightarrow>
      fst (fst (set_tm i terrain override t)) = None
      \<and> snd (fst (set_tm i terrain override t)) \<in>
          {[Error_duplicate], [Error_invalid (nullish_default i t)]}
      \<and> snd (set_tm i terrain override t) = t"
    by (auto simp add: set_tm_def Let_def invalid_id_def split: jsval.splits jsnum.splits)
  have five: "ov \<or> \<not> has (Number (Integer 5)) u \<longrightarrow>
      fst (fst (set_tm (Number (Integer 5)) x ov u)) = Some (Integer 5)
      \<and> get (Number (Integer 5)) (snd (set_tm (Number (Integer 5)) x ov u)) = Some x
      \<and> set_tm (Number (Integer 5)) y False (snd (set_tm (Number (Integer 5)) x ov u))
          = ((None, [Error_duplicate]), snd (set_tm (Number (Integer 5)) x ov u))
      \<and> get (Number (Integer 5))
           (snd (set_tm (Number (Integer 5)) y False (snd (set_tm (Number (Integer 5)) x ov u))))
          = Some x"
  proof
    assume ok: "ov \<or> \<not> has (Number (Integer 5)) u"
    let ?u1 = "u\<lparr>entries := map_set (Integer 5) x (entries u)\<rparr>"
    let ?u2 = "?u1\<lparr>nextId := findNextId ?u1\<rparr>"
    have first: "set_tm (Number (Integer 5)) x ov u = ((Some (Integer 5), []), ?u2)"
      using ok by (auto simp add: set_tm_def nullish_default_def Let_def MAX_TERRAINS_def)
    have stored: "get (Number (Integer 5)) ?u2 = Some x"
      by (simp add: get_def map_get_map_set_same)
    have present: "has (Number (Integer 5)) ?u2"
      by (simp add: has_def map_has_map_set)
    have second: "set_tm (Number (Integer 5)) y False ?u2 = ((None, [Error_duplicate]), ?u2)"
      using present by (simp add: set_tm_def nullish_default_def)
    show "fst (fst (set_tm (Number (Integer 5)) x ov u)) = Some (Integer 5)
      \<and> get (Number (Integer 5)) (snd (set_tm (Number (Integer 5)) x ov u)) = Some x
      \<and> set_tm (Number (Integer 5)) y False (snd (set_tm (Number (Integer 5)) x ov u))
          = ((None, [Error_duplicate]), snd (set_tm (Number (Integer 5)) x ov u))
      \<and> get (Number (Integer 5))
           (snd (set_tm (Number (Integer 5)) y False (snd (set_tm (Number (Integer 5)) x ov u))))
          = Some x"
      unfolding first snd_conv fst_conv second using stored by simp
  qed
  from rejected five show ?thesis by (rule conjI)
qed

theorem set_rejected_leaves_map_unchanged_witness:
  "invalid_id (nullish_default (Number (Integer 0)) (new_TerrainMap :: string TerrainMap))
   \<and> set_tm (Number (Integer 0)) ''y'' True new_TerrainMap
       = ((None, [Error_invalid (Number (Integer 0))]), new_TerrainMap)
   \<and> \<not> has (Number (Integer 5)) (new_TerrainMap :: string TerrainMap)
   \<and> snd (set_tm (Number (Integer 5)) ''x'' False new_TerrainMap)
       = \<lparr>entries = [(Integer 5, ''x'')], nextId = Integer 6\<rparr>
   \<and> set_tm (Number (Integer 5)) ''y'' False \<lparr>entries = [(Integer 5, ''x'')], nextId = Integer 6\<rparr>
       = ((None, [Error_duplicate]), \<lparr>entries = [(Integer 5, ''x'')], nextId = Integer 6\<rparr>)"
proof -
  have inv: "invalid_id (nullish_default (Number (Integer 0)) (new_TerrainMap :: string TerrainMap))"
    by (simp add: invalid_id_def nullish_default_def)
  have absent: "\<not> has (Number (Integer 5)) (new_TerrainMap :: string TerrainMap)"
    by (simp add: has_def map_has_def new_TerrainMap_def)
  have after: "snd (set_tm (Number (Integer 5)) ''x'' False new_TerrainMap)
       = \<lparr>entries = [(Integer 5, ''x'')], nextId = Integer 6\<rparr>"
    by (simp add: set_tm_def nullish_default_def has_def map_has_def new_TerrainMap_def Let_def
        MAX_TERRAINS_def findNextId_def keys_def map_keys_def sort_js_def)
  note inst = set_rejected_leaves_map_unchanged
    [of True "Number (Integer 0)" "new_TerrainMap :: string TerrainMap" "''y''" False
        new_TerrainMap "''x''" "''y''"]
  from inst inv absent have
    "fst (fst (set_tm (Number (Integer 0)) ''y'' True (new_TerrainMap :: string TerrainMap))) = None"
    "snd (fst (set_tm (Number (Integer 0)) ''y'' True (new_TerrainMap :: string TerrainMap)))
       \<in> {[Error_duplicate], [Error_invalid (nullish_default (Number (Integer 0)) (new_TerrainMap :: string TerrainMap))]}"
    "snd (set_tm (Number (Integer 0)) ''y'' True (new_TerrainMap :: string TerrainMap)) = new_TerrainMap"
    "set_tm (Number (Integer 5)) ''y'' False (snd (set_tm (Number (Integer 5)) ''x'' False new_TerrainMap))
       = ((None, [Error_duplicate]), snd (set_tm (Number (Integer 5)) ''x'' False new_TerrainMap))"
    by blast+
  then show ?thesis
    using inv absent after
    by (simp add: prod_eq_iff nullish_default_def set_tm_def has_def map_has_def new_TerrainMap_def)
qed

text \<open>
  C7. The claim: \<open>delete\<close> of an id that is not a key returns false and changes nothing,
  \<open>delete\<close> of a key removes the entry and returns true, and on a container with the keys
  1, 2, 3, 4, \<open>delete(2)\<close> sets the cursor to 2 and the next \<open>add\<close> returns 2. The first two
  parts hold (\<open>delete_absent\<close>, \<open>delete_present\<close>), and so does the third when the cursor
  is a free positive integer (\<open>delete_2_of_1_to_4\<close>). But the keys 1, 2, 3, 4 are also
  reached with the cursor NaN: on a new map, \<open>add(x)\<close>, \<open>delete(1)\<close>, \<open>add(n)\<close>, \<open>set(1, a)\<close>,
  \<open>set(2, b)\<close>, \<open>set(3, c)\<close>, \<open>set(4, d)\<close>, \<open>delete(NaN)\<close>. There \<open>delete(2)\<close> returns true
  and leaves the cursor at NaN, because \<open>NaN > 2\<close> is false, and the next \<open>add\<close> returns NaN.
\<close>

theorem delete_2_keeps_NaN_cursor:
  "snd (delete (Number (Integer 1)) (snd (add ''x'' new_TerrainMap)))
     = \<lparr>entries = [], nextId = NaN\<rparr>
   \<and> snd (add ''n'' \<lparr>entries = [], nextId = NaN\<rparr>)
     = \<lparr>entries = [(NaN, ''n'')], nextId = NaN\<rparr>
   \<and> snd (set_tm (Number (Integer 1)) ''a'' False \<lparr>entries = [(NaN, ''n'')], nextId = NaN\<rparr>)
     = \<lparr>entries = [(NaN, ''n''), (Integer 1, ''a'')], nextId = NaN\<rparr>
   \<and> snd (set_tm (Number (Integer 2)) ''b'' False
          \<lparr>entries = [(NaN, ''n''), (Integer 1, ''a'')], nextId = NaN\<rparr>)
     = \<lparr>entries = [(NaN, ''n''), (Integer 1, ''a''), (Integer 2, ''b'')], nextId = NaN\<rparr>
   \<and> snd (set_tm (Number (Integer 3)) ''c'' False
          \<lparr>entries = [(NaN, ''n''), (Integer 1, ''a''), (Integer 2, ''b'')], nextId = NaN\<rparr>)
     = \<lparr>entries = [(NaN, ''n''), (Integer 1, ''a''), (Integer 2, ''b''), (Integer 3, ''c'')],
        nextId = NaN\<rparr>
   \<and> snd (set_tm (Number (Integer 4)) ''d'' False
          \<lparr>entries = [(NaN, ''n''), (Integer 1, ''a''), (Integer 2, ''b''), (Integer 3, ''c'')],
           nextId = NaN\<rparr>)
     = \<lparr>entries = [(NaN, ''n''), (Integer 1, ''a''), (Integer 2, ''b''), (Integer 3, ''c''),
          (Integer 4, ''d'')], nextId = NaN\<rparr>
   \<and> delete (Number NaN)
          \<lparr>entries = [(NaN, ''n''), (Integer 1, ''a''), (Integer 2, ''b''), (Integer 3, ''c''),
             (Integer 4, ''d'')], nextId = NaN\<rparr>
     = (True, \<lparr>entries = [(Integer 1, ''a''), (Integer 2, ''b''), (Integer 3, ''c''),
          (Integer 4, ''d'')], nextId = NaN\<rparr>)
   \<and> delete (Number (Integer 2))
          \<lparr>entries = [(Integer 1, ''a''), (Integer 2, ''b''), (Integer 3, ''c''), (Integer 4, ''d'')],
           nextId = NaN\<rparr>
     = (True, \<lparr>entries = [(Integer 1, ''a''), (Integer 3, ''c''), (Integer 4, ''d'')],
          nextId = NaN\<rparr>)
   \<and> fst (add ''e'' \<lparr>entries = [(Integer 1, ''a''), (Integer 3, ''c''), (Integer 4, ''d'')],
          nextId = NaN\<rparr>) = (NaN, [])"
  by (simp add: set_tm_def nullish_default_def has_def map_has_def delete_def add_def
      new_TerrainMap_def Let_def MAX_TERRAINS_def map_delete_def findNextId_def keys_def
      map_keys_def sort_js_def)

text \<open>
  C8. \<open>MAX_TERRAINS\<close> is 31 and is a soft cap: \<open>set\<close> with an integer id above it that is not
  a key succeeds, whatever \<open>override\<close> is. It returns the id, stores the entry under it, and
  writes the warning to the console and no error. So \<open>set(40, x)\<close> returns 40 and key 40
  holds \<open>x\<close>.
\<close>

theorem set_above_MAX_TERRAINS_succeeds:
  assumes "MAX_TERRAINS < n" and "\<not> has (Number (Integer n)) t"
  shows "MAX_TERRAINS = 31
    \<and> fst (set_tm (Number (Integer n)) terrain override t)
        = (Some (Integer n), [Warn_exceeds (Integer n)])
    \<and> get (Number (Integer n)) (snd (set_tm (Number (Integer n)) terrain override t)) = Some terrain"
  using assms
  by (simp add: set_tm_def Let_def nullish_default_def MAX_TERRAINS_def get_def map_get_map_set_same)

theorem set_above_MAX_TERRAINS_succeeds_witness:
  "MAX_TERRAINS < 40
   \<and> \<not> has (Number (Integer 40)) (new_TerrainMap :: string TerrainMap)
   \<and> fst (set_tm (Number (Integer 40)) ''x'' False new_TerrainMap)
        = (Some (Integer 40), [Warn_exceeds (Integer 40)])
   \<and> get (Number (Integer 40)) (snd (set_tm (Number (Integer 40)) ''x'' False new_TerrainMap))
        = Some ''x''"
proof -
  have h1: "MAX_TERRAINS < 40" by (simp add: MAX_TERRAINS_def)
  have h2: "\<not> has (Number (Integer 40)) (new_TerrainMap :: string TerrainMap)"
    by (simp add: has_def map_has_def new_TerrainMap_def)
  from set_above_MAX_TERRAINS_succeeds [OF h1 h2, of "''x''" False] h1 h2
  show ?thesis by blast
qed




text \<open>
  C10. \<open>add\<close> never fails and checks nothing: in every state it returns the cursor, stores
  the entry under the cursor whether or not the cursor is a valid id or already a key,
  leaves every other key as it was, and writes at most the capacity warning to the console.
\<close>

theorem add_never_fails:
  "fst (fst (add terrain t)) = nextId t
   \<and> snd (fst (add terrain t))
       = (if js_gt (nextId t) (Integer MAX_TERRAINS) then [Warn_exceeds (nextId t)] else [])
   \<and> (\<forall>k. get (Number k) (snd (add terrain t))
           = (if k = nextId t then Some terrain else get (Number k) t))"
  by (simp add: add_def Let_def get_def map_get_map_set_same map_get_map_set_other)

end
